theory Spec2Isabelle
  imports Main
begin

section \<open>Catalog rows\<close>

text \<open>
  index.ts reads two row lists from the catalog: the base tables of the public schema
  (ordered by name) and the columns of that schema (ordered by table name, then ordinal
  position). Every field of a row is a string. Both row types have a field
  \<open>table_name\<close>; it is written \<open>table_row.table_name\<close> for a table and
  \<open>column_row.table_name\<close> for a column.

  A JavaScript string is a sequence of UTF-16 code units, compared unit by unit. Here a
  string is a list of \<open>char\<close>, one \<open>char\<close> for one code unit (not one byte of an
  encoding): the strings covered are those whose code units are below 256, that is
  ASCII and Latin-1, where a letter with an accent is a single unit.
\<close>

record table_row =
  table_name :: string

record column_row =
  table_name :: string
  column_name :: string
  data_type :: string
  udt_name :: string
  is_nullable :: string

section \<open>The syntax tree built with the TypeScript factory\<close>

datatype SyntaxKind =
    StringKeyword
  | NumberKeyword
  | BooleanKeyword
  | UnknownKeyword
  | NullKeyword
  | ExportKeyword

datatype TypeNode =
    KeywordTypeNode SyntaxKind
  | LiteralTypeNode SyntaxKind
  | UnionTypeNode "TypeNode list"
  | TypeReferenceNode string

datatype PropertySignature =
  PropertySignature (property_name: string) (property_type: TypeNode)

datatype InterfaceDeclaration =
  InterfaceDeclaration (modifiers: "SyntaxKind list") (interface_name: string)
    (members: "PropertySignature list")

datatype SourceFile =
  SourceFile (statements: "InterfaceDeclaration list")

text \<open>
  The exceptions the script can meet: a \<open>TypeError\<close> when a method is called on
  \<open>undefined\<close>, and the \<open>SyntaxError\<close> with which the formatter rejects a text
  it cannot parse.
\<close>

datatype js_error = TypeError | SyntaxError

section \<open>The string methods used by \<open>toPascalCase\<close>\<close>

text \<open>
  \<open>s.charAt(i)\<close> is the one-character string at index \<open>i\<close>, or the empty string
  when \<open>i\<close> is out of range; \<open>s.slice(start)\<close> with a non-negative start is the
  rest of the string from there.
\<close>

definition charAt :: "string \<Rightarrow> nat \<Rightarrow> string" where
  "charAt s i = take 1 (drop i s)"

definition slice :: "string \<Rightarrow> nat \<Rightarrow> string" where
  "slice s start = drop start s"

text \<open>
  \<open>toUpperCase\<close> is a method of the runtime. On ASCII it maps the letters a to z to
  A to Z and keeps every other code unit. Above ASCII (the top bit \<open>digit7\<close> of the
  unit is set) the result is the upper case the runtime's Unicode tables give, which
  may be another unit, the same unit, or several units (the sharp s becomes SS). These
  tables are not part of the repository: \<open>upper\<close>, the upper case of a single unit above
  ASCII, is a parameter of \<open>toUpperCase\<close> and of everything that calls it, and every
  statement below holds for every \<open>upper\<close>.
\<close>

definition upper_char :: "(char \<Rightarrow> string) \<Rightarrow> char \<Rightarrow> string" where
  "upper_char upper c =
     (case map_of (zip ''abcdefghijklmnopqrstuvwxyz'' ''ABCDEFGHIJKLMNOPQRSTUVWXYZ'') c of
        Some u \<Rightarrow> [u]
      | None \<Rightarrow> if digit7 c then upper c else [c])"

definition toUpperCase :: "(char \<Rightarrow> string) \<Rightarrow> string \<Rightarrow> string" where
  "toUpperCase upper s = concat (map (upper_char upper) s)"

text \<open>
  \<open>s.split(sep)\<close> for a one-character separator, as a scan from the left: \<open>cur\<close>
  is the piece being read. The empty string splits into one empty piece.
\<close>

fun split_from :: "char \<Rightarrow> string \<Rightarrow> string \<Rightarrow> string list" where
  "split_from sep cur [] = [cur]"
| "split_from sep cur (c # cs) =
     (if c = sep then cur # split_from sep [] cs else split_from sep (cur @ [c]) cs)"

definition split :: "string \<Rightarrow> char \<Rightarrow> string list" where
  "split s sep = split_from sep [] s"

fun join :: "string list \<Rightarrow> string \<Rightarrow> string" where
  "join [] sep = []"
| "join [w] sep = w"
| "join (w # v # ws) sep = w @ sep @ join (v # ws) sep"

section \<open>toPascalCase\<close>

definition toPascalCase :: "(char \<Rightarrow> string) \<Rightarrow> string \<Rightarrow> string" where
  "toPascalCase upper str =
     join (map (\<lambda>word. toUpperCase upper (charAt word 0) @ slice word 1)
             (split str (CHR ''_''))) []"

section \<open>getTypeNode\<close>

text \<open>
  \<open>getTypeNode\<close> returns the type node together with the lines it writes with
  \<open>console.warn\<close>. The storage type (\<open>udtName\<close>) is tested first, then the
  \<open>switch\<close> on the declared type, case by case in the order of the source.
\<close>

definition getTypeNode :: "string \<Rightarrow> string \<Rightarrow> bool \<Rightarrow> TypeNode \<times> string list" where
  "getTypeNode dataType udtName isNullable =
     (let (baseType, warned) =
        (if udtName = ''uuid'' then (KeywordTypeNode StringKeyword, [])
         else if udtName = ''timestamptz'' \<or> udtName = ''timestamp''
           then (KeywordTypeNode StringKeyword, [])
         else if udtName = ''citext'' then (KeywordTypeNode StringKeyword, [])
         else if dataType = ''character varying'' \<or> dataType = ''text''
              \<or> dataType = ''bigint'' \<or> dataType = ''character''
           then (KeywordTypeNode StringKeyword, [])
         else if dataType = ''integer'' \<or> dataType = ''smallint''
              \<or> dataType = ''numeric'' \<or> dataType = ''decimal''
              \<or> dataType = ''real'' \<or> dataType = ''double precision''
           then (KeywordTypeNode NumberKeyword, [])
         else if dataType = ''boolean'' then (KeywordTypeNode BooleanKeyword, [])
         else if dataType = ''date'' then (KeywordTypeNode StringKeyword, [])
         else if dataType = ''json'' \<or> dataType = ''jsonb''
           then (KeywordTypeNode UnknownKeyword, [])
         else if dataType = ''uuid'' then (KeywordTypeNode StringKeyword, [])
         else (KeywordTypeNode UnknownKeyword,
               [''Unknown type: '' @ dataType @ '' ('' @ udtName @ '')'']))
      in (if isNullable then UnionTypeNode [baseType, LiteralTypeNode NullKeyword]
          else baseType,
          warned))"

section \<open>Grouping the columns by table\<close>

text \<open>
  \<open>tableColumns\<close> is a \<open>Map\<close> from table name to the array of that table's columns.
  One round of the loop over \<open>columns\<close>: an absent key is first set to the empty
  array, then the column is pushed on the array stored under its key. The push is a
  method call on the result of \<open>get\<close>, which throws when that result is undefined.
\<close>

definition tableColumns_step ::
  "(string \<rightharpoonup> column_row list) \<Rightarrow> column_row \<Rightarrow> js_error + (string \<rightharpoonup> column_row list)" where
  "tableColumns_step m column =
     (let m1 = (if m (column_row.table_name column) = None
                then m(column_row.table_name column \<mapsto> []) else m)
      in case m1 (column_row.table_name column) of
           None \<Rightarrow> Inl TypeError
         | Some arr \<Rightarrow> Inr (m1(column_row.table_name column \<mapsto> arr @ [column])))"

fun tableColumns_loop ::
  "(string \<rightharpoonup> column_row list) \<Rightarrow> column_row list \<Rightarrow> js_error + (string \<rightharpoonup> column_row list)" where
  "tableColumns_loop m [] = Inr m"
| "tableColumns_loop m (column # columns) =
     (case tableColumns_step m column of
        Inl e \<Rightarrow> Inl e
      | Inr m' \<Rightarrow> tableColumns_loop m' columns)"

definition tableColumns :: "column_row list \<Rightarrow> js_error + (string \<rightharpoonup> column_row list)" where
  "tableColumns columns = tableColumns_loop Map.empty columns"

section \<open>The interface declarations\<close>

text \<open>The property signature of one column, with the warnings of its \<open>getTypeNode\<close> call.\<close>

definition property :: "column_row \<Rightarrow> PropertySignature \<times> string list" where
  "property col =
     (let (ty, warned) = getTypeNode (data_type col) (udt_name col) (is_nullable col = ''YES'')
      in (PropertySignature (column_name col) ty, warned))"

fun properties :: "column_row list \<Rightarrow> PropertySignature list \<times> string list" where
  "properties [] = ([], [])"
| "properties (col # cols) =
     (let (p, warned) = property col; (ps, warned') = properties cols
      in (p # ps, warned @ warned'))"

text \<open>
  The loop over \<open>tables\<close>. The state is the array \<open>interfaceDeclarations\<close> and the
  warnings written so far. \<open>tableColumns.get(tableName) || []\<close> is the stored array,
  or the empty array for a table without a column row.
\<close>

fun interfaceDeclarations_loop ::
  "(char \<Rightarrow> string) \<Rightarrow> (string \<rightharpoonup> column_row list) \<Rightarrow> table_row list \<Rightarrow>
   InterfaceDeclaration list \<times> string list \<Rightarrow> InterfaceDeclaration list \<times> string list" where
  "interfaceDeclarations_loop upper m [] st = st"
| "interfaceDeclarations_loop upper m (table # tables) (interfaceDeclarations, console) =
     (let tableName = table_row.table_name table;
          cols = (case m tableName of Some arr \<Rightarrow> arr | None \<Rightarrow> []);
          (props, warned) = properties cols;
          interfaceDecl =
            InterfaceDeclaration [ExportKeyword] (toPascalCase upper tableName) props
      in interfaceDeclarations_loop upper m tables
           (interfaceDeclarations @ [interfaceDecl], console @ warned))"

definition databaseProperties :: "(char \<Rightarrow> string) \<Rightarrow> table_row list \<Rightarrow> PropertySignature list" where
  "databaseProperties upper tables =
     map (\<lambda>table. PropertySignature (table_row.table_name table)
                    (TypeReferenceNode (toPascalCase upper (table_row.table_name table))))
       tables"

definition databaseInterface :: "(char \<Rightarrow> string) \<Rightarrow> table_row list \<Rightarrow> InterfaceDeclaration" where
  "databaseInterface upper tables =
     InterfaceDeclaration [ExportKeyword] ''Database'' (databaseProperties upper tables)"

text \<open>
  The source file: the interfaces of the tables, then the \<open>Database\<close> interface.
  The result carries the warnings written on the way.
\<close>

definition sourceFile ::
  "(char \<Rightarrow> string) \<Rightarrow> table_row list \<Rightarrow> column_row list \<Rightarrow>
   js_error + (SourceFile \<times> string list)" where
  "sourceFile upper tables columns =
     (case tableColumns columns of
        Inl e \<Rightarrow> Inl e
      | Inr m \<Rightarrow>
          (let (interfaceDeclarations, console) =
                 interfaceDeclarations_loop upper m tables ([], []);
               allDeclarations = interfaceDeclarations @ [databaseInterface upper tables]
           in Inr (SourceFile allDeclarations, console)))"

section \<open>The text written to schema.d.ts\<close>

text \<open>
  The printer of the TypeScript compiler (\<open>printFile\<close>) and the formatter
  (\<open>format\<close>, which rejects a text it cannot parse) are libraries, and the clock gives
  \<open>now\<close>, the ISO string of the current time: the three are parameters.
\<close>

definition unformattedOutput :: "string \<Rightarrow> string \<Rightarrow> string" where
  "unformattedOutput now generatedCode =
     ''// Generated by introspect on '' @ now @ [CHR 0x0A]
     @ ''// DO NOT EDIT - This file is auto-generated'' @ [CHR 0x0A, CHR 0x0A]
     @ generatedCode"

definition formattedOutput ::
  "(char \<Rightarrow> string) \<Rightarrow> (SourceFile \<Rightarrow> string) \<Rightarrow> (string \<Rightarrow> js_error + string) \<Rightarrow>
   string \<Rightarrow> table_row list \<Rightarrow> column_row list \<Rightarrow> js_error + (string \<times> string list)" where
  "formattedOutput upper printFile format now tables columns =
     (case sourceFile upper tables columns of
        Inl e \<Rightarrow> Inl e
      | Inr (file, console) \<Rightarrow>
          (case format (unformattedOutput now (printFile file)) of
             Inl e \<Rightarrow> Inl e
           | Inr text \<Rightarrow> Inr (text, console)))"

section \<open>Notions used in the statements\<close>

text \<open>
  The segments of a string between underscores, and a segment with its first character
  in upper case: the PascalCase transform as the specification words it.
\<close>

function segments :: "string \<Rightarrow> string list" where
  "segments s =
     takeWhile (\<lambda>c. c \<noteq> CHR ''_'') s #
     (case dropWhile (\<lambda>c. c \<noteq> CHR ''_'') s of
        [] \<Rightarrow> []
      | u # rest \<Rightarrow> segments rest)"
  by pat_completeness auto
termination
proof (relation "measure length")
  show "wf (measure length)" by simp
next
  fix s :: string and u rest
  assume "dropWhile (\<lambda>c. c \<noteq> CHR ''_'') s = u # rest"
  then have "length rest < length (dropWhile (\<lambda>c. c \<noteq> CHR ''_'') s)" by simp
  also have "\<dots> \<le> length s" by (rule length_dropWhile_le)
  finally show "(rest, s) \<in> measure length" by simp
qed

declare segments.simps [simp del]

fun capitalize :: "(char \<Rightarrow> string) \<Rightarrow> string \<Rightarrow> string" where
  "capitalize upper [] = []"
| "capitalize upper (c # cs) = toUpperCase upper [c] @ cs"

text \<open>A type node has a null member when it is a union with the null literal in it.\<close>

fun has_null_member :: "TypeNode \<Rightarrow> bool" where
  "has_null_member (UnionTypeNode ms) = (LiteralTypeNode NullKeyword \<in> set ms)"
| "has_null_member t = False"

text \<open>
  Stripping the null member of a union: the other members stay, and a union left with
  one member is that member.
\<close>

fun strip_null :: "TypeNode \<Rightarrow> TypeNode" where
  "strip_null (UnionTypeNode ms) =
     (case filter (\<lambda>m. m \<noteq> LiteralTypeNode NullKeyword) ms of
        [m] \<Rightarrow> m
      | ms' \<Rightarrow> UnionTypeNode ms')"
| "strip_null t = t"

text \<open>
  The columns of a table, read off the column list: the map the grouping loop builds,
  and the interface and the warnings of one table.
\<close>

definition grouped :: "column_row list \<Rightarrow> (string \<rightharpoonup> column_row list)" where
  "grouped columns k =
     (if k \<in> set (map column_row.table_name columns)
      then Some (filter (\<lambda>col. column_row.table_name col = k) columns) else None)"

definition tableInterface ::
  "(char \<Rightarrow> string) \<Rightarrow> column_row list \<Rightarrow> table_row \<Rightarrow> InterfaceDeclaration" where
  "tableInterface upper columns table =
     InterfaceDeclaration [ExportKeyword] (toPascalCase upper (table_row.table_name table))
       (map (\<lambda>col. fst (property col))
          (filter (\<lambda>col. column_row.table_name col = table_row.table_name table) columns))"

definition tableWarnings :: "column_row list \<Rightarrow> table_row \<Rightarrow> string list" where
  "tableWarnings columns table =
     concat (map (\<lambda>col. snd (property col))
          (filter (\<lambda>col. column_row.table_name col = table_row.table_name table) columns))"

section \<open>The grouping loop\<close>

lemma filter_absent:
  "k \<notin> set (map f xs) \<Longrightarrow> filter (\<lambda>c. f c = k) xs = []"
  by (auto simp: filter_empty_conv)

lemma tableColumns_step_grouped:
  "tableColumns_step (grouped pre) column = Inr (grouped (pre @ [column]))"
proof -
  have "(grouped pre)(column_row.table_name column \<mapsto>
          (case grouped pre (column_row.table_name column) of None \<Rightarrow> [] | Some arr \<Rightarrow> arr)
          @ [column])
        = grouped (pre @ [column])"
    by (rule ext) (auto simp: grouped_def filter_absent)
  then show ?thesis
    by (auto simp: tableColumns_step_def Let_def split: option.splits)
qed

lemma tableColumns_loop_grouped:
  "tableColumns_loop (grouped pre) columns = Inr (grouped (pre @ columns))"
proof (induction columns arbitrary: pre)
  case Nil
  show ?case by simp
next
  case (Cons column columns)
  show ?case
    using Cons.IH [of "pre @ [column]"] by (simp add: tableColumns_step_grouped)
qed

lemma tableColumns_grouped: "tableColumns columns = Inr (grouped columns)"
proof -
  have "grouped [] = Map.empty" by (rule ext) (simp add: grouped_def)
  then show ?thesis
    using tableColumns_loop_grouped [of "[]" columns] by (simp add: tableColumns_def)
qed

lemma grouped_get:
  "(case grouped columns k of Some arr \<Rightarrow> arr | None \<Rightarrow> [])
   = filter (\<lambda>col. column_row.table_name col = k) columns"
proof (cases "k \<in> set (map column_row.table_name columns)")
  case True
  then show ?thesis by (simp add: grouped_def)
next
  case False
  then have "filter (\<lambda>col. column_row.table_name col = k) columns = []"
    by (rule filter_absent)
  with False show ?thesis by (simp add: grouped_def)
qed

section \<open>The loop over the tables\<close>

lemma properties_fst: "fst (properties cols) = map (\<lambda>col. fst (property col)) cols"
  by (induction cols) (simp_all add: case_prod_beta)

lemma properties_snd: "snd (properties cols) = concat (map (\<lambda>col. snd (property col)) cols)"
  by (induction cols) (simp_all add: case_prod_beta)

lemma interfaceDeclarations_loop_eq:
  "interfaceDeclarations_loop upper (grouped columns) tables (decls, console)
   = (decls @ map (tableInterface upper columns) tables,
      console @ concat (map (tableWarnings columns) tables))"
proof (induction tables arbitrary: decls console)
  case Nil
  show ?case by simp
next
  case (Cons table tables)
  show ?case
    by (simp add: Cons.IH grouped_get Let_def case_prod_beta properties_fst properties_snd
        tableInterface_def tableWarnings_def)
qed

lemma sourceFile_eq:
  "sourceFile upper tables columns
   = Inr (SourceFile
            (map (tableInterface upper columns) tables @ [databaseInterface upper tables]),
          concat (map (tableWarnings columns) tables))"
  by (simp add: sourceFile_def tableColumns_grouped interfaceDeclarations_loop_eq)

section \<open>Facts about \<open>getTypeNode\<close> and \<open>property\<close>\<close>

lemma getTypeNode_nullable:
  "getTypeNode d u True
   = (UnionTypeNode [fst (getTypeNode d u False), LiteralTypeNode NullKeyword],
      snd (getTypeNode d u False))"
  by (simp add: getTypeNode_def case_prod_beta)

lemma getTypeNode_keyword: "\<exists>k. fst (getTypeNode d u False) = KeywordTypeNode k"
  by (simp add: getTypeNode_def)

lemma property_name_eq: "property_name (fst (property col)) = column_name col"
  by (simp add: property_def case_prod_beta)

lemma property_type_eq:
  "property_type (fst (property col))
   = fst (getTypeNode (data_type col) (udt_name col) (is_nullable col = ''YES''))"
  by (simp add: property_def case_prod_beta)

lemma property_not_reference: "property_type (fst (property col)) \<noteq> TypeReferenceNode r"
proof (cases "is_nullable col = ''YES''")
  case True
  then show ?thesis by (simp add: property_type_eq getTypeNode_nullable)
next
  case False
  obtain k where "fst (getTypeNode (data_type col) (udt_name col) False) = KeywordTypeNode k"
    using getTypeNode_keyword by blast
  with False show ?thesis by (simp add: property_type_eq)
qed

section \<open>Splitting on the underscore\<close>

lemma split_from_segments:
  "split_from (CHR ''_'') cur s =
     (cur @ takeWhile (\<lambda>c. c \<noteq> CHR ''_'') s) #
     (case dropWhile (\<lambda>c. c \<noteq> CHR ''_'') s of
        [] \<Rightarrow> []
      | u # rest \<Rightarrow> split_from (CHR ''_'') [] rest)"
  by (induction s arbitrary: cur) simp_all

lemma split_segments: "split s (CHR ''_'') = segments s"
proof (induction s rule: segments.induct)
  case (1 s)
  have rest:
    "(case dropWhile (\<lambda>c. c \<noteq> CHR ''_'') s of [] \<Rightarrow> []
      | u # rest \<Rightarrow> split_from (CHR ''_'') [] rest)
     = (case dropWhile (\<lambda>c. c \<noteq> CHR ''_'') s of [] \<Rightarrow> []
      | u # rest \<Rightarrow> segments rest)"
  proof (cases "dropWhile (\<lambda>c. c \<noteq> CHR ''_'') s")
    case Nil
    then show ?thesis by (simp only: list.case)
  next
    case (Cons u rest)
    then show ?thesis
      using "1.IH" [of u rest] by (simp only: list.case split_def)
  qed
  have "split s (CHR ''_'') = split_from (CHR ''_'') [] s"
    by (simp only: split_def)
  also have "\<dots> = takeWhile (\<lambda>c. c \<noteq> CHR ''_'') s #
      (case dropWhile (\<lambda>c. c \<noteq> CHR ''_'') s of [] \<Rightarrow> []
       | u # rest \<Rightarrow> split_from (CHR ''_'') [] rest)"
    using split_from_segments [of "[]" s] by (simp only: append_Nil)
  also have "\<dots> = segments s"
    by (simp only: rest segments.simps [of s, symmetric])
  finally show ?case .
qed

lemma join_empty: "join ws [] = concat ws"
  by (induction ws "[] :: string" rule: join.induct) simp_all

lemma word_capitalize:
  "(\<lambda>word. toUpperCase upper (charAt word 0) @ slice word 1) = capitalize upper"
proof
  fix word
  show "toUpperCase upper (charAt word 0) @ slice word 1 = capitalize upper word"
    by (cases word) (simp_all add: charAt_def slice_def toUpperCase_def)
qed

text \<open>
  A separator inside a string: the pieces before it, then the pieces after it. Hence a
  doubled underscore only adds an empty piece, which \<open>toPascalCase\<close> drops.
\<close>

lemma split_from_append:
  "split_from sep cur (a @ sep # b) = split_from sep cur a @ split_from sep [] b"
  by (induction a arbitrary: cur) simp_all

lemma toPascalCase_append:
  "toPascalCase upper (a @ CHR ''_'' # b) = toPascalCase upper a @ toPascalCase upper b"
  by (simp add: toPascalCase_def split_def split_from_append join_empty)

lemma toPascalCase_underscore:
  "toPascalCase upper (CHR ''_'' # b) = toPascalCase upper b"
  by (simp add: toPascalCase_def split_def join_empty charAt_def slice_def toUpperCase_def)

lemmas toPascalCase_eval =
  toPascalCase_def split_def charAt_def slice_def toUpperCase_def upper_char_def

section \<open>The example of the specification\<close>

text \<open>
  Claim C1. The catalog has the one base table \<open>user_accounts\<close> with the columns
  \<open>id\<close> (storage type uuid, not nullable), \<open>email\<close> (storage type citext, not
  nullable), \<open>bio\<close> (declared type text, nullable) and \<open>created_at\<close> (storage type
  timestamptz, not nullable), in this order. Whatever the fields the claim leaves open
  (the declared types of \<open>id\<close>, \<open>email\<close> and \<open>created_at\<close>, the storage type of
  \<open>bio\<close>), the script builds exactly the exported interface \<open>UserAccounts\<close> with
  the fields \<open>id: string\<close>, \<open>email: string\<close>, \<open>bio: string | null\<close>,
  \<open>created_at: string\<close>, followed by the exported interface \<open>Database\<close> with the one
  field \<open>user_accounts: UserAccounts\<close>, and it writes no warning.
\<close>

theorem user_accounts_example:
  "sourceFile upper
     [\<lparr>table_row.table_name = ''user_accounts''\<rparr>]
     [\<lparr>table_name = ''user_accounts'', column_name = ''id'', data_type = d_id,
        udt_name = ''uuid'', is_nullable = ''NO''\<rparr>,
      \<lparr>table_name = ''user_accounts'', column_name = ''email'', data_type = d_email,
        udt_name = ''citext'', is_nullable = ''NO''\<rparr>,
      \<lparr>table_name = ''user_accounts'', column_name = ''bio'', data_type = ''text'',
        udt_name = u_bio, is_nullable = ''YES''\<rparr>,
      \<lparr>table_name = ''user_accounts'', column_name = ''created_at'', data_type = d_created,
        udt_name = ''timestamptz'', is_nullable = ''NO''\<rparr>]
   = Inr (SourceFile
       [InterfaceDeclaration [ExportKeyword] ''UserAccounts''
          [PropertySignature ''id'' (KeywordTypeNode StringKeyword),
           PropertySignature ''email'' (KeywordTypeNode StringKeyword),
           PropertySignature ''bio''
             (UnionTypeNode [KeywordTypeNode StringKeyword, LiteralTypeNode NullKeyword]),
           PropertySignature ''created_at'' (KeywordTypeNode StringKeyword)],
        InterfaceDeclaration [ExportKeyword] ''Database''
          [PropertySignature ''user_accounts'' (TypeReferenceNode ''UserAccounts'')]],
       [])"
  by (simp add: sourceFile_def tableColumns_def tableColumns_step_def property_def
      getTypeNode_def databaseInterface_def databaseProperties_def toPascalCase_eval)

section \<open>One interface per table, one Database interface\<close>

text \<open>
  A table's interface is never the \<open>Database\<close> interface: the fields of the first
  have keyword or union types, the fields of the second are type references, and where
  there is a table at all the second has a field.
\<close>

lemma databaseInterface_not_table:
  "databaseInterface upper tables \<notin> set (map (tableInterface upper columns) tables)"
proof
  assume "databaseInterface upper tables \<in> set (map (tableInterface upper columns) tables)"
  then obtain table where t: "table \<in> set tables"
    and eq: "databaseInterface upper tables = tableInterface upper columns table"
    by auto
  from t obtain t0 ts where tables: "tables = t0 # ts"
    by (cases tables) auto
  from eq have m: "databaseProperties upper tables
      = map (\<lambda>col. fst (property col))
          (filter (\<lambda>col. column_row.table_name col = table_row.table_name table) columns)"
    by (simp add: databaseInterface_def tableInterface_def)
  then obtain col where
    "PropertySignature (table_row.table_name t0)
       (TypeReferenceNode (toPascalCase upper (table_row.table_name t0))) = fst (property col)"
    by (auto simp: tables databaseProperties_def Cons_eq_map_conv)
  then have "property_type (fst (property col))
      = TypeReferenceNode (toPascalCase upper (table_row.table_name t0))"
    by (metis PropertySignature.sel(2))
  then show False
    by (simp add: property_not_reference)
qed

text \<open>
  Claim C2. For every table list and column list the script does not throw, and its
  source file is the list of the tables' interfaces followed by the \<open>Database\<close>
  interface: there are as many table interfaces as tables, the interface at each
  position is named by the PascalCase of the table at that position, the \<open>Database\<close>
  interface stands once (no table interface is equal to it), and its fields are, in the
  order of the table list, one per table, the table's original name typed by a reference
  to the PascalCase name.
\<close>

theorem one_interface_per_table:
  "\<exists>decls console.
     sourceFile upper tables columns
       = Inr (SourceFile (decls @ [databaseInterface upper tables]), console)
     \<and> length decls = length tables
     \<and> map interface_name decls
         = map (\<lambda>table. toPascalCase upper (table_row.table_name table)) tables
     \<and> databaseInterface upper tables \<notin> set decls
     \<and> databaseInterface upper tables
         = InterfaceDeclaration [ExportKeyword] ''Database''
             (map (\<lambda>table. PropertySignature (table_row.table_name table)
                     (TypeReferenceNode (toPascalCase upper (table_row.table_name table))))
                tables)"
proof -
  have "map interface_name (map (tableInterface upper columns) tables)
        = map (\<lambda>table. toPascalCase upper (table_row.table_name table)) tables"
    by (simp add: tableInterface_def)
  moreover have "databaseInterface upper tables
         = InterfaceDeclaration [ExportKeyword] ''Database''
             (map (\<lambda>table. PropertySignature (table_row.table_name table)
                     (TypeReferenceNode (toPascalCase upper (table_row.table_name table))))
                tables)"
    by (simp add: databaseInterface_def databaseProperties_def)
  moreover have "length (map (tableInterface upper columns) tables) = length tables"
    by simp
  ultimately show ?thesis
    using sourceFile_eq [of upper tables columns]
      databaseInterface_not_table [of upper tables columns]
    by blast
qed

section \<open>Nullability\<close>

text \<open>
  Claim C3. For every declared type and storage type, the node of the non-nullable call
  has no null member; the node of the nullable call is the union whose members are that
  same non-nullable node and the null literal; and stripping the null member of the
  nullable node gives the non-nullable node back.
\<close>

theorem nullability_wrapping:
  "\<not> has_null_member (fst (getTypeNode declaredType storageType False))
   \<and> fst (getTypeNode declaredType storageType True)
       = UnionTypeNode [fst (getTypeNode declaredType storageType False),
                        LiteralTypeNode NullKeyword]
   \<and> strip_null (fst (getTypeNode declaredType storageType True))
       = fst (getTypeNode declaredType storageType False)"
proof -
  obtain k where k: "fst (getTypeNode declaredType storageType False) = KeywordTypeNode k"
    using getTypeNode_keyword by blast
  then show ?thesis
    by (simp add: getTypeNode_nullable)
qed

section \<open>Every type maps to a node\<close>

lemma getTypeNode_unknown:
  "storageType \<notin> {''uuid'', ''timestamptz'', ''timestamp'', ''citext''}
   \<and> declaredType \<notin> {''character varying'', ''text'', ''bigint'', ''character'',
         ''integer'', ''smallint'', ''numeric'', ''decimal'', ''real'',
         ''double precision'', ''boolean'', ''date'', ''json'', ''jsonb'', ''uuid''}
   \<Longrightarrow> getTypeNode declaredType storageType nullable
       = (if nullable
          then UnionTypeNode [KeywordTypeNode UnknownKeyword, LiteralTypeNode NullKeyword]
          else KeywordTypeNode UnknownKeyword,
          [''Unknown type: '' @ declaredType @ '' ('' @ storageType @ '')''])"
  by (simp add: getTypeNode_def)

lemma property_eq:
  "property col
   = (PropertySignature (column_name col)
        (fst (getTypeNode (data_type col) (udt_name col) (is_nullable col = ''YES''))),
      snd (getTypeNode (data_type col) (udt_name col) (is_nullable col = ''YES'')))"
  by (simp add: property_def case_prod_beta)

text \<open>
  Claim C4. \<open>getTypeNode\<close> has no failing branch: for every declared type, storage
  type and nullable flag it returns a keyword node, or the union of a keyword node with
  null when the flag is set. When the storage type is none of the four tested ones and
  the declared type is none of the cases of the switch, the node is the unknown keyword
  (in a union with null when the flag is set) and exactly one warning is written,
  \<open>Unknown type: declaredType (storageType)\<close>. No field is left out: the properties
  of a column list are, column by column, the column's name with the node of its
  \<open>getTypeNode\<close> call; the run over any table and column lists does not throw, the
  members of each table's interface are these fields for the table's columns, and the
  warnings written are those of these calls. In particular every column of a fetched
  table whose type is not recognised is a member of its table's interface, typed
  \<open>unknown\<close> (or \<open>unknown | null\<close>), and its warning is among the warnings written.
\<close>

theorem getTypeNode_total:
  "(\<exists>k. getTypeNode declaredType storageType nullable
        = (if nullable then UnionTypeNode [KeywordTypeNode k, LiteralTypeNode NullKeyword]
           else KeywordTypeNode k,
           snd (getTypeNode declaredType storageType nullable)))
   \<and> (storageType \<notin> {''uuid'', ''timestamptz'', ''timestamp'', ''citext''}
        \<and> declaredType \<notin> {''character varying'', ''text'', ''bigint'', ''character'',
              ''integer'', ''smallint'', ''numeric'', ''decimal'', ''real'',
              ''double precision'', ''boolean'', ''date'', ''json'', ''jsonb'', ''uuid''}
      \<longrightarrow> getTypeNode declaredType storageType nullable
          = (if nullable
             then UnionTypeNode [KeywordTypeNode UnknownKeyword, LiteralTypeNode NullKeyword]
             else KeywordTypeNode UnknownKeyword,
             [''Unknown type: '' @ declaredType @ '' ('' @ storageType @ '')'']))
   \<and> fst (properties cols)
       = map (\<lambda>col. PropertySignature (column_name col)
                (fst (getTypeNode (data_type col) (udt_name col) (is_nullable col = ''YES''))))
           cols
   \<and> (\<exists>decls console.
         sourceFile upper tables columns
           = Inr (SourceFile (decls @ [databaseInterface upper tables]), console)
         \<and> map members decls
             = map (\<lambda>table.
                 map (\<lambda>col. PropertySignature (column_name col)
                        (fst (getTypeNode (data_type col) (udt_name col)
                                (is_nullable col = ''YES''))))
                   (filter (\<lambda>col. column_row.table_name col = table_row.table_name table)
                      columns)) tables
         \<and> console
             = concat (map (\<lambda>table.
                 concat (map (\<lambda>col. snd (getTypeNode (data_type col) (udt_name col)
                                         (is_nullable col = ''YES'')))
                   (filter (\<lambda>col. column_row.table_name col = table_row.table_name table)
                      columns))) tables)
         \<and> (\<forall>i col.
               i < length tables \<and> col \<in> set columns
               \<and> column_row.table_name col = table_row.table_name (tables ! i)
               \<and> udt_name col \<notin> {''uuid'', ''timestamptz'', ''timestamp'', ''citext''}
               \<and> data_type col \<notin> {''character varying'', ''text'', ''bigint'', ''character'',
                     ''integer'', ''smallint'', ''numeric'', ''decimal'', ''real'',
                     ''double precision'', ''boolean'', ''date'', ''json'', ''jsonb'', ''uuid''}
               \<longrightarrow> i < length decls
                 \<and> PropertySignature (column_name col)
                      (if is_nullable col = ''YES''
                       then UnionTypeNode [KeywordTypeNode UnknownKeyword,
                                           LiteralTypeNode NullKeyword]
                       else KeywordTypeNode UnknownKeyword)
                     \<in> set (members (decls ! i))
                 \<and> ''Unknown type: '' @ data_type col @ '' ('' @ udt_name col @ '')''
                     \<in> set console))"
proof -
  let ?ids = "{''uuid'', ''timestamptz'', ''timestamp'', ''citext''}"
  let ?cases = "{''character varying'', ''text'', ''bigint'', ''character'',
              ''integer'', ''smallint'', ''numeric'', ''decimal'', ''real'',
              ''double precision'', ''boolean'', ''date'', ''json'', ''jsonb'', ''uuid''}"
  let ?decls = "map (tableInterface upper columns) tables"
  let ?console = "concat (map (tableWarnings columns) tables)"
  have total: "\<exists>k. getTypeNode declaredType storageType nullable
        = (if nullable then UnionTypeNode [KeywordTypeNode k, LiteralTypeNode NullKeyword]
           else KeywordTypeNode k,
           snd (getTypeNode declaredType storageType nullable))"
    by (simp add: getTypeNode_def)
  have unknown: "storageType \<notin> ?ids \<and> declaredType \<notin> ?cases
      \<longrightarrow> getTypeNode declaredType storageType nullable
          = (if nullable
             then UnionTypeNode [KeywordTypeNode UnknownKeyword, LiteralTypeNode NullKeyword]
             else KeywordTypeNode UnknownKeyword,
             [''Unknown type: '' @ declaredType @ '' ('' @ storageType @ '')''])"
    using getTypeNode_unknown [of storageType declaredType nullable] by blast
  have props: "fst (properties cols)
       = map (\<lambda>col. PropertySignature (column_name col)
                (fst (getTypeNode (data_type col) (udt_name col) (is_nullable col = ''YES''))))
           cols"
    by (simp add: properties_fst property_eq)
  have run: "sourceFile upper tables columns
           = Inr (SourceFile (?decls @ [databaseInterface upper tables]), ?console)"
    by (rule sourceFile_eq)
  have mem: "map members ?decls
             = map (\<lambda>table.
                 map (\<lambda>col. PropertySignature (column_name col)
                        (fst (getTypeNode (data_type col) (udt_name col)
                                (is_nullable col = ''YES''))))
                   (filter (\<lambda>col. column_row.table_name col = table_row.table_name table)
                      columns)) tables"
    by (simp add: tableInterface_def property_eq)
  have con: "?console
             = concat (map (\<lambda>table.
                 concat (map (\<lambda>col. snd (getTypeNode (data_type col) (udt_name col)
                                         (is_nullable col = ''YES'')))
                   (filter (\<lambda>col. column_row.table_name col = table_row.table_name table)
                      columns))) tables)"
    by (simp add: tableWarnings_def property_eq cong: map_cong)
  have emitted: "i < length ?decls
        \<and> PropertySignature (column_name col)
            (if is_nullable col = ''YES''
             then UnionTypeNode [KeywordTypeNode UnknownKeyword, LiteralTypeNode NullKeyword]
             else KeywordTypeNode UnknownKeyword)
           \<in> set (members (?decls ! i))
        \<and> ''Unknown type: '' @ data_type col @ '' ('' @ udt_name col @ '')'' \<in> set ?console"
    if i: "i < length tables" and col: "col \<in> set columns"
      and own: "column_row.table_name col = table_row.table_name (tables ! i)"
      and u: "udt_name col \<notin> ?ids" and d: "data_type col \<notin> ?cases"
    for i col
  proof -
    have p: "property col
        = (PropertySignature (column_name col)
            (if is_nullable col = ''YES''
             then UnionTypeNode [KeywordTypeNode UnknownKeyword, LiteralTypeNode NullKeyword]
             else KeywordTypeNode UnknownKeyword),
           [''Unknown type: '' @ data_type col @ '' ('' @ udt_name col @ '')''])"
      using getTypeNode_unknown [of "udt_name col" "data_type col" "is_nullable col = ''YES''"] u d
      by (simp only: property_eq fst_conv snd_conv simp_thms)
    have inf: "col \<in> set (filter (\<lambda>c. column_row.table_name c = table_row.table_name (tables ! i))
                 columns)"
      using col own by simp
    have "fst (property col) \<in> set (members (tableInterface upper columns (tables ! i)))"
      using inf by (simp only: tableInterface_def InterfaceDeclaration.sel set_map) (rule imageI)
    then have a: "PropertySignature (column_name col)
            (if is_nullable col = ''YES''
             then UnionTypeNode [KeywordTypeNode UnknownKeyword, LiteralTypeNode NullKeyword]
             else KeywordTypeNode UnknownKeyword)
           \<in> set (members (?decls ! i))"
      using i by (simp only: p fst_conv nth_map)
    have "snd (property col) \<in> set (map (\<lambda>c. snd (property c))
            (filter (\<lambda>c. column_row.table_name c = table_row.table_name (tables ! i)) columns))"
      using inf by (simp only: set_map) (rule imageI)
    then have "''Unknown type: '' @ data_type col @ '' ('' @ udt_name col @ '')''
        \<in> set (tableWarnings columns (tables ! i))"
      unfolding tableWarnings_def set_concat p snd_conv by (rule UN_I) simp
    moreover have "tables ! i \<in> set tables" using i by simp
    ultimately have b: "''Unknown type: '' @ data_type col @ '' ('' @ udt_name col @ '')''
        \<in> set ?console"
      unfolding set_concat set_map by blast
    from i a b show ?thesis by simp
  qed
  have "\<exists>decls console.
         sourceFile upper tables columns
           = Inr (SourceFile (decls @ [databaseInterface upper tables]), console)
         \<and> map members decls
             = map (\<lambda>table.
                 map (\<lambda>col. PropertySignature (column_name col)
                        (fst (getTypeNode (data_type col) (udt_name col)
                                (is_nullable col = ''YES''))))
                   (filter (\<lambda>col. column_row.table_name col = table_row.table_name table)
                      columns)) tables
         \<and> console
             = concat (map (\<lambda>table.
                 concat (map (\<lambda>col. snd (getTypeNode (data_type col) (udt_name col)
                                         (is_nullable col = ''YES'')))
                   (filter (\<lambda>col. column_row.table_name col = table_row.table_name table)
                      columns))) tables)
         \<and> (\<forall>i col.
               i < length tables \<and> col \<in> set columns
               \<and> column_row.table_name col = table_row.table_name (tables ! i)
               \<and> udt_name col \<notin> ?ids
               \<and> data_type col \<notin> ?cases
               \<longrightarrow> i < length decls
                 \<and> PropertySignature (column_name col)
                      (if is_nullable col = ''YES''
                       then UnionTypeNode [KeywordTypeNode UnknownKeyword,
                                           LiteralTypeNode NullKeyword]
                       else KeywordTypeNode UnknownKeyword)
                     \<in> set (members (decls ! i))
                 \<and> ''Unknown type: '' @ data_type col @ '' ('' @ udt_name col @ '')''
                     \<in> set console)"
    apply (rule exI [of _ ?decls])
    apply (rule exI [of _ ?console])
    apply (intro conjI allI impI)
         apply (rule run)
        apply (rule mem)
       apply (rule con)
      apply (elim conjE, rule emitted [THEN conjunct1]; assumption)
     apply (elim conjE, rule emitted [THEN conjunct2, THEN conjunct1]; assumption)
    apply (elim conjE, rule emitted [THEN conjunct2, THEN conjunct2]; assumption)
    done
  with total unknown props show ?thesis by (intro conjI)
qed

text \<open>
  The hypotheses of C4 at a table \<open>places\<close> with the columns \<open>location\<close> (point, not
  nullable) and \<open>area\<close> (polygon, nullable): both fields are in the interface, typed
  \<open>unknown\<close> and \<open>unknown | null\<close>, and both warnings are written.
\<close>

theorem getTypeNode_total_witness:
  "getTypeNode ''point'' ''point'' True
     = (UnionTypeNode [KeywordTypeNode UnknownKeyword, LiteralTypeNode NullKeyword],
        [''Unknown type: point (point)''])
   \<and> (\<exists>decls console.
         sourceFile (\<lambda>c. [c]) [\<lparr>table_row.table_name = ''places''\<rparr>]
           [\<lparr>table_name = ''places'', column_name = ''location'', data_type = ''point'',
              udt_name = ''point'', is_nullable = ''NO''\<rparr>,
            \<lparr>table_name = ''places'', column_name = ''area'', data_type = ''polygon'',
              udt_name = ''polygon'', is_nullable = ''YES''\<rparr>]
         = Inr (SourceFile
                  (decls @ [databaseInterface (\<lambda>c. [c]) [\<lparr>table_row.table_name = ''places''\<rparr>]]),
                console)
         \<and> PropertySignature ''location'' (KeywordTypeNode UnknownKeyword)
               \<in> set (members (decls ! 0))
         \<and> PropertySignature ''area''
               (UnionTypeNode [KeywordTypeNode UnknownKeyword, LiteralTypeNode NullKeyword])
               \<in> set (members (decls ! 0))
         \<and> ''Unknown type: point (point)'' \<in> set console
         \<and> ''Unknown type: polygon (polygon)'' \<in> set console)
   \<and> sourceFile (\<lambda>c. [c]) [\<lparr>table_row.table_name = ''places''\<rparr>]
        [\<lparr>table_name = ''places'', column_name = ''location'', data_type = ''point'',
           udt_name = ''point'', is_nullable = ''NO''\<rparr>,
         \<lparr>table_name = ''places'', column_name = ''area'', data_type = ''polygon'',
           udt_name = ''polygon'', is_nullable = ''YES''\<rparr>]
     = Inr (SourceFile
         [InterfaceDeclaration [ExportKeyword] ''Places''
            [PropertySignature ''location'' (KeywordTypeNode UnknownKeyword),
             PropertySignature ''area''
               (UnionTypeNode [KeywordTypeNode UnknownKeyword, LiteralTypeNode NullKeyword])],
          InterfaceDeclaration [ExportKeyword] ''Database''
            [PropertySignature ''places'' (TypeReferenceNode ''Places'')]],
         [''Unknown type: point (point)'', ''Unknown type: polygon (polygon)''])"
proof -
  let ?loc = "\<lparr>table_name = ''places'', column_name = ''location'', data_type = ''point'',
              udt_name = ''point'', is_nullable = ''NO''\<rparr>"
  let ?area = "\<lparr>table_name = ''places'', column_name = ''area'', data_type = ''polygon'',
              udt_name = ''polygon'', is_nullable = ''YES''\<rparr>"
  let ?tables = "[\<lparr>table_row.table_name = ''places''\<rparr>]"
  note th = getTypeNode_total [where declaredType = "''point''" and storageType = "''point''"
      and nullable = True and cols = "[]" and upper = "\<lambda>c. [c]" and tables = ?tables
      and columns = "[?loc, ?area]"]
  from th have g: "getTypeNode ''point'' ''point'' True
     = (UnionTypeNode [KeywordTypeNode UnknownKeyword, LiteralTypeNode NullKeyword],
        [''Unknown type: point (point)''])"
    by simp
  from th obtain decls console where
    run: "sourceFile (\<lambda>c. [c]) ?tables [?loc, ?area]
         = Inr (SourceFile (decls @ [databaseInterface (\<lambda>c. [c]) ?tables]), console)"
    and emitted: "\<And>i col.
               i < length ?tables \<and> col \<in> set [?loc, ?area]
               \<and> column_row.table_name col = table_row.table_name (?tables ! i)
               \<and> udt_name col \<notin> {''uuid'', ''timestamptz'', ''timestamp'', ''citext''}
               \<and> data_type col \<notin> {''character varying'', ''text'', ''bigint'', ''character'',
                     ''integer'', ''smallint'', ''numeric'', ''decimal'', ''real'',
                     ''double precision'', ''boolean'', ''date'', ''json'', ''jsonb'', ''uuid''}
               \<Longrightarrow> i < length decls
                 \<and> PropertySignature (column_name col)
                      (if is_nullable col = ''YES''
                       then UnionTypeNode [KeywordTypeNode UnknownKeyword,
                                           LiteralTypeNode NullKeyword]
                       else KeywordTypeNode UnknownKeyword)
                     \<in> set (members (decls ! i))
                 \<and> ''Unknown type: '' @ data_type col @ '' ('' @ udt_name col @ '')''
                     \<in> set console"
    by blast
  have l: "PropertySignature ''location'' (KeywordTypeNode UnknownKeyword)
               \<in> set (members (decls ! 0))
           \<and> ''Unknown type: point (point)'' \<in> set console"
    using emitted [of 0 ?loc] by simp
  have a: "PropertySignature ''area''
               (UnionTypeNode [KeywordTypeNode UnknownKeyword, LiteralTypeNode NullKeyword])
               \<in> set (members (decls ! 0))
           \<and> ''Unknown type: polygon (polygon)'' \<in> set console"
    using emitted [of 0 ?area] by simp
  have e: "sourceFile (\<lambda>c. [c]) ?tables [?loc, ?area]
     = Inr (SourceFile
         [InterfaceDeclaration [ExportKeyword] ''Places''
            [PropertySignature ''location'' (KeywordTypeNode UnknownKeyword),
             PropertySignature ''area''
               (UnionTypeNode [KeywordTypeNode UnknownKeyword, LiteralTypeNode NullKeyword])],
          InterfaceDeclaration [ExportKeyword] ''Database''
            [PropertySignature ''places'' (TypeReferenceNode ''Places'')]],
         [''Unknown type: point (point)'', ''Unknown type: polygon (polygon)''])"
    by (simp add: sourceFile_def tableColumns_def tableColumns_step_def property_def
        getTypeNode_def databaseInterface_def databaseProperties_def toPascalCase_eval)
  from run l a have "\<exists>decls console.
         sourceFile (\<lambda>c. [c]) ?tables [?loc, ?area]
         = Inr (SourceFile (decls @ [databaseInterface (\<lambda>c. [c]) ?tables]), console)
         \<and> PropertySignature ''location'' (KeywordTypeNode UnknownKeyword)
               \<in> set (members (decls ! 0))
         \<and> PropertySignature ''area''
               (UnionTypeNode [KeywordTypeNode UnknownKeyword, LiteralTypeNode NullKeyword])
               \<in> set (members (decls ! 0))
         \<and> ''Unknown type: point (point)'' \<in> set console
         \<and> ''Unknown type: polygon (polygon)'' \<in> set console"
    by (intro exI conjI) (assumption | erule conjunct1 | erule conjunct2)+
  with g e show ?thesis by (intro conjI)
qed

section \<open>The storage types mapped to string\<close>

text \<open>
  Claim C5. When the storage type is uuid, timestamptz, timestamp or citext, the base
  type is the string keyword whatever the declared type is (in a union with null when
  the flag is set), and nothing is warned: the switch on the declared type is not
  reached.
\<close>

theorem identity_string_storage_types:
  "storageType \<in> {''uuid'', ''timestamptz'', ''timestamp'', ''citext''} \<Longrightarrow>
   getTypeNode declaredType storageType nullable
   = (if nullable then UnionTypeNode [KeywordTypeNode StringKeyword, LiteralTypeNode NullKeyword]
      else KeywordTypeNode StringKeyword,
      [])"
  by (auto simp add: getTypeNode_def)

theorem identity_string_storage_types_witness:
  "getTypeNode ''point'' ''citext'' True
     = (UnionTypeNode [KeywordTypeNode StringKeyword, LiteralTypeNode NullKeyword], [])
   \<and> getTypeNode ''integer'' ''uuid'' False = (KeywordTypeNode StringKeyword, [])"
  using identity_string_storage_types [of "''citext''" "''point''" True]
    identity_string_storage_types [of "''uuid''" "''integer''" False]
  by simp

section \<open>Field order\<close>

text \<open>
  Claim C6. The grouping loop does not throw, and the array it stores for a table name
  is the sublist of the column list with that table name, in the order of the column
  list (the empty list for a name without a column). The interface of each table has
  as its members exactly the properties of the table's columns in that order; in
  particular the field names are the column names in the order of the query result.
\<close>

theorem fields_in_column_order:
  "\<exists>m decls console.
     tableColumns columns = Inr m
     \<and> (\<forall>k. (case m k of Some arr \<Rightarrow> arr | None \<Rightarrow> [])
             = filter (\<lambda>col. column_row.table_name col = k) columns)
     \<and> sourceFile upper tables columns
         = Inr (SourceFile (decls @ [databaseInterface upper tables]), console)
     \<and> map members decls
         = map (\<lambda>table. map (\<lambda>col. fst (property col))
                  (filter (\<lambda>col. column_row.table_name col = table_row.table_name table)
                     columns)) tables
     \<and> map (\<lambda>decl. map property_name (members decl)) decls
         = map (\<lambda>table. map column_name
                  (filter (\<lambda>col. column_row.table_name col = table_row.table_name table)
                     columns)) tables"
proof -
  let ?decls = "map (tableInterface upper columns) tables"
  have "\<forall>k. (case grouped columns k of Some arr \<Rightarrow> arr | None \<Rightarrow> [])
             = filter (\<lambda>col. column_row.table_name col = k) columns"
    by (simp add: grouped_get)
  moreover have "map members ?decls
         = map (\<lambda>table. map (\<lambda>col. fst (property col))
                  (filter (\<lambda>col. column_row.table_name col = table_row.table_name table)
                     columns)) tables"
    by (simp add: tableInterface_def)
  moreover have "map (\<lambda>decl. map property_name (members decl)) ?decls
         = map (\<lambda>table. map column_name
                  (filter (\<lambda>col. column_row.table_name col = table_row.table_name table)
                     columns)) tables"
    by (simp add: tableInterface_def comp_def property_name_eq)
  ultimately show ?thesis
    using tableColumns_grouped [of columns] sourceFile_eq [of upper tables columns] by blast
qed

section \<open>Interface names\<close>

text \<open>
  Claim C7. For every string and every upper-casing of the code units above ASCII,
  \<open>toPascalCase\<close> is the concatenation of the segments between underscores, each with
  its first code unit replaced by its upper case and the rest unchanged;
  \<open>user_accounts\<close> becomes \<open>UserAccounts\<close>. Collisions are not detected. Distinct
  names with the same PascalCase exist for every pair of strings \<open>a\<close>, \<open>b\<close>: the names
  \<open>a__b\<close> and \<open>a_b\<close>. And for every table list, with or without such names, the run
  does not throw and each table has its interface under its PascalCase name, none
  renamed, merged or dropped; so \<open>foo__bar\<close> and \<open>foo_bar\<close> both give an interface
  \<open>FooBar\<close>.
\<close>

theorem toPascalCase_transform:
  "toPascalCase upper str = concat (map (capitalize upper) (segments str))
   \<and> toPascalCase upper ''user_accounts'' = ''UserAccounts''
   \<and> a @ ''__'' @ b \<noteq> a @ ''_'' @ b
   \<and> toPascalCase upper (a @ ''__'' @ b) = toPascalCase upper (a @ ''_'' @ b)
   \<and> (\<exists>decls console.
         sourceFile upper tables columns
           = Inr (SourceFile (decls @ [databaseInterface upper tables]), console)
         \<and> map interface_name decls
             = map (\<lambda>table. toPascalCase upper (table_row.table_name table)) tables)
   \<and> sourceFile upper
        [\<lparr>table_row.table_name = ''foo__bar''\<rparr>, \<lparr>table_row.table_name = ''foo_bar''\<rparr>] []
     = Inr (SourceFile
         [InterfaceDeclaration [ExportKeyword] ''FooBar'' [],
          InterfaceDeclaration [ExportKeyword] ''FooBar'' [],
          InterfaceDeclaration [ExportKeyword] ''Database''
            [PropertySignature ''foo__bar'' (TypeReferenceNode ''FooBar''),
             PropertySignature ''foo_bar'' (TypeReferenceNode ''FooBar'')]],
         [])"
proof -
  have "toPascalCase upper str = concat (map (capitalize upper) (segments str))"
    by (simp only: toPascalCase_def join_empty word_capitalize split_segments)
  moreover have "toPascalCase upper ''user_accounts'' = ''UserAccounts''"
    by (simp add: toPascalCase_eval)
  moreover have "a @ ''__'' @ b \<noteq> a @ ''_'' @ b"
  proof
    assume "a @ ''__'' @ b = a @ ''_'' @ b"
    then have "length (a @ ''__'' @ b) = length (a @ ''_'' @ b)" by (rule arg_cong)
    then show False by simp
  qed
  moreover have "toPascalCase upper (a @ ''__'' @ b) = toPascalCase upper (a @ ''_'' @ b)"
    using toPascalCase_append [of upper a "CHR ''_'' # b"] toPascalCase_append [of upper a b]
      toPascalCase_underscore [of upper b]
    by simp
  moreover have "\<exists>decls console.
         sourceFile upper tables columns
           = Inr (SourceFile (decls @ [databaseInterface upper tables]), console)
         \<and> map interface_name decls
             = map (\<lambda>table. toPascalCase upper (table_row.table_name table)) tables"
  proof -
    have "map interface_name (map (tableInterface upper columns) tables)
          = map (\<lambda>table. toPascalCase upper (table_row.table_name table)) tables"
      by (simp add: tableInterface_def)
    then show ?thesis
      using sourceFile_eq [of upper tables columns] by blast
  qed
  moreover have
    "sourceFile upper
        [\<lparr>table_row.table_name = ''foo__bar''\<rparr>, \<lparr>table_row.table_name = ''foo_bar''\<rparr>] []
     = Inr (SourceFile
         [InterfaceDeclaration [ExportKeyword] ''FooBar'' [],
          InterfaceDeclaration [ExportKeyword] ''FooBar'' [],
          InterfaceDeclaration [ExportKeyword] ''Database''
            [PropertySignature ''foo__bar'' (TypeReferenceNode ''FooBar''),
             PropertySignature ''foo_bar'' (TypeReferenceNode ''FooBar'')]],
         [])"
    by (simp add: sourceFile_def tableColumns_def databaseInterface_def databaseProperties_def
        toPascalCase_eval)
  ultimately show ?thesis by blast
qed

section \<open>Columns of no fetched table\<close>

text \<open>
  Claim C9. The columns whose table name is the name of no fetched table have no
  effect: the source file, the warnings and the formatted output are the same as for the
  column list with these columns removed.
\<close>

theorem foreign_columns_have_no_effect:
  "sourceFile upper tables columns
     = sourceFile upper tables
         (filter (\<lambda>col. column_row.table_name col \<in> set (map table_row.table_name tables))
            columns)
   \<and> formattedOutput upper printFile format now tables columns
     = formattedOutput upper printFile format now tables
         (filter (\<lambda>col. column_row.table_name col \<in> set (map table_row.table_name tables))
            columns)"
proof -
  let ?own = "\<lambda>col. column_row.table_name col \<in> set (map table_row.table_name tables)"
  have cols: "filter (\<lambda>col. column_row.table_name col = table_row.table_name table)
                (filter ?own columns)
              = filter (\<lambda>col. column_row.table_name col = table_row.table_name table) columns"
    if "table \<in> set tables" for table
    unfolding filter_filter by (rule filter_cong) (use that in auto)
  have ti: "tableInterface upper (filter ?own columns) table = tableInterface upper columns table"
    if "table \<in> set tables" for table
    using cols [OF that] by (simp only: tableInterface_def)
  have tw: "tableWarnings (filter ?own columns) table = tableWarnings columns table"
    if "table \<in> set tables" for table
    using cols [OF that] by (simp only: tableWarnings_def)
  have "map (tableInterface upper (filter ?own columns)) tables
        = map (tableInterface upper columns) tables"
    by (rule map_cong [OF refl]) (rule ti)
  moreover have "map (tableWarnings (filter ?own columns)) tables
                 = map (tableWarnings columns) tables"
    by (rule map_cong [OF refl]) (rule tw)
  ultimately have "sourceFile upper tables columns = sourceFile upper tables (filter ?own columns)"
    by (simp only: sourceFile_eq)
  then show ?thesis
    by (simp only: formattedOutput_def)
qed

section \<open>The nullable flag\<close>

text \<open>
  Claim C10. The field of a column has a null member if and only if the column's
  \<open>is_nullable\<close> is exactly \<open>YES\<close>. For every other value the field has the type
  and the warnings of the non-nullable call; for \<open>YES\<close> its type is the union of that
  type with null.
\<close>

theorem nullable_iff_YES:
  "(has_null_member (property_type (fst (property col))) \<longleftrightarrow> is_nullable col = ''YES'')
   \<and> (is_nullable col \<noteq> ''YES'' \<longrightarrow>
        property col = (PropertySignature (column_name col)
                          (fst (getTypeNode (data_type col) (udt_name col) False)),
                        snd (getTypeNode (data_type col) (udt_name col) False)))
   \<and> (is_nullable col = ''YES'' \<longrightarrow>
        property col = (PropertySignature (column_name col)
                          (UnionTypeNode [fst (getTypeNode (data_type col) (udt_name col) False),
                                          LiteralTypeNode NullKeyword]),
                        snd (getTypeNode (data_type col) (udt_name col) False)))"
proof -
  obtain k where k: "fst (getTypeNode (data_type col) (udt_name col) False) = KeywordTypeNode k"
    using getTypeNode_keyword by blast
  show ?thesis
  proof (cases "is_nullable col = ''YES''")
    case True
    then show ?thesis
      by (simp add: property_def getTypeNode_nullable)
  next
    case False
    then show ?thesis
      using k by (simp add: property_def case_prod_beta)
  qed
qed

text \<open>
  C10 at the values \<open>yes\<close>, the empty string, \<open>NO\<close> and \<open>YES\<close> for a column of
  declared type text.
\<close>

theorem nullable_iff_YES_witness:
  "fst (property \<lparr>table_name = ''t'', column_name = ''a'', data_type = ''text'',
          udt_name = ''text'', is_nullable = ''yes''\<rparr>)
     = PropertySignature ''a'' (KeywordTypeNode StringKeyword)
   \<and> fst (property \<lparr>table_name = ''t'', column_name = ''b'', data_type = ''text'',
          udt_name = ''text'', is_nullable = ''''\<rparr>)
     = PropertySignature ''b'' (KeywordTypeNode StringKeyword)
   \<and> fst (property \<lparr>table_name = ''t'', column_name = ''c'', data_type = ''text'',
          udt_name = ''text'', is_nullable = ''NO''\<rparr>)
     = PropertySignature ''c'' (KeywordTypeNode StringKeyword)
   \<and> fst (property \<lparr>table_name = ''t'', column_name = ''d'', data_type = ''text'',
          udt_name = ''text'', is_nullable = ''YES''\<rparr>)
     = PropertySignature ''d''
         (UnionTypeNode [KeywordTypeNode StringKeyword, LiteralTypeNode NullKeyword])"
proof -
  have t: "fst (getTypeNode ''text'' ''text'' False) = KeywordTypeNode StringKeyword"
    by (simp add: getTypeNode_def)
  show ?thesis
    using
      nullable_iff_YES [of "\<lparr>table_name = ''t'', column_name = ''a'', data_type = ''text'',
          udt_name = ''text'', is_nullable = ''yes''\<rparr>"]
      nullable_iff_YES [of "\<lparr>table_name = ''t'', column_name = ''b'', data_type = ''text'',
          udt_name = ''text'', is_nullable = ''''\<rparr>"]
      nullable_iff_YES [of "\<lparr>table_name = ''t'', column_name = ''c'', data_type = ''text'',
          udt_name = ''text'', is_nullable = ''NO''\<rparr>"]
      nullable_iff_YES [of "\<lparr>table_name = ''t'', column_name = ''d'', data_type = ''text'',
          udt_name = ''text'', is_nullable = ''YES''\<rparr>"]
    by (simp add: t)
qed

end
